theory Spec2Isabelle
  imports Main "HOL-Library.AList"
begin

section \<open>Values, rows and frames\<close>

text \<open>
  The collector works on pandas frames whose cells are JSON scalars read from the Kalshi
  API or from SQLite TEXT columns. A cell is modelled as \<open>string option\<close>: \<open>None\<close>
  stands for every missing value (JSON null, Python None, NaN, SQL NULL), \<open>Some s\<close> for a
  scalar, written as its text. A row is a Python dict from column label to cell, kept as
  an association list in insertion order; a frame is its column labels with its rows.
\<close>

type_synonym val = "string option"

type_synonym row = "(string \<times> val) list"

record frame =
  columns :: "string list"
  rows :: "row list"

datatype error =
    KeyError string
  | MergeError string
  | ValueError string
  | SQLAlchemyError string
  | OSError string

definition cell :: "row \<Rightarrow> string \<Rightarrow> val" where
  "cell r c = (case map_of r c of None \<Rightarrow> None | Some v \<Rightarrow> v)"

definition startswith :: "string \<Rightarrow> string \<Rightarrow> bool" where
  "startswith s p = (take (length p) s = p)"

text \<open>
  The distinct elements in order of first appearance: \<open>Series.unique()\<close>, and the way
  \<open>pd.DataFrame(list_of_dicts)\<close> collects its labels.
\<close>

definition unique :: "'a list \<Rightarrow> 'a list" where
  "unique xs = rev (remdups (rev xs))"

definition project :: "string list \<Rightarrow> row \<Rightarrow> row" where
  "project cols r = map (\<lambda>c. (c, cell r c)) cols"

definition DataFrame :: "row list \<Rightarrow> frame" where
  "DataFrame recs =
     (let cols = unique (concat (map (map fst) recs))
      in \<lparr>columns = cols, rows = map (project cols) recs\<rparr>)"

definition rename_columns :: "(string \<Rightarrow> string) \<Rightarrow> frame \<Rightarrow> frame" where
  "rename_columns f df =
     \<lparr>columns = map f (columns df), rows = map (map (\<lambda>(c, v). (f c, v))) (rows df)\<rparr>"

text \<open>\<open>df[c] = values\<close>: an existing column is overwritten in place, a new one goes last.\<close>

definition assign :: "string \<Rightarrow> val list \<Rightarrow> frame \<Rightarrow> frame" where
  "assign c vs df =
     \<lparr>columns = (if c \<in> set (columns df) then columns df else columns df @ [c]),
      rows = map (\<lambda>(r, v). AList.update c v r) (zip (rows df) vs)\<rparr>"

text \<open>\<open>df[cols]\<close> with a list of labels: KeyError when a label is not a column.\<close>

definition getitem_columns :: "frame \<Rightarrow> string list \<Rightarrow> error + frame" where
  "getitem_columns df cols =
     (case filter (\<lambda>c. c \<notin> set (columns df)) cols of
        [] \<Rightarrow> Inr \<lparr>columns = cols, rows = map (project cols) (rows df)\<rparr>
      | c # _ \<Rightarrow> Inl (KeyError c))"

text \<open>\<open>df.loc[:, mask]\<close> with a boolean mask computed from the labels.\<close>

definition loc_columns :: "(string \<Rightarrow> bool) \<Rightarrow> frame \<Rightarrow> frame" where
  "loc_columns keep df =
     (let cols = filter keep (columns df)
      in \<lparr>columns = cols, rows = map (project cols) (rows df)\<rparr>)"

text \<open>\<open>df.drop(columns=cs, errors='ignore')\<close>.\<close>

definition drop_columns :: "string list \<Rightarrow> frame \<Rightarrow> frame" where
  "drop_columns cs df = loc_columns (\<lambda>c. c \<notin> set cs) df"

section \<open>Events and markets\<close>

text \<open>
  A market is the flat record that \<open>json_normalize\<close> builds for one element of an event's
  \<open>markets\<close> list: the members of a nested object appear under dotted keys, so the member
  \<open>Team\<close> of \<open>custom_strike\<close> is the key \<open>custom_strike.Team\<close>. An event is a dict
  whose member \<open>markets\<close> is kept apart from the scalar members: \<open>None\<close> when the key
  is absent, \<open>Some ms\<close> for a list (a null member counts as the empty list, which is how
  \<open>json_normalize\<close> reads it).
\<close>

type_synonym market = row

record event =
  members :: row
  markets :: "market list option"

definition pull_field :: "event \<Rightarrow> string \<Rightarrow> error + val" where
  "pull_field e k = (case map_of (members e) k of None \<Rightarrow> Inl (KeyError k) | Some v \<Rightarrow> Inr v)"

definition pull_records :: "event \<Rightarrow> error + market list" where
  "pull_records e = (case markets e of None \<Rightarrow> Inl (KeyError ''markets'') | Some ms \<Rightarrow> Inr ms)"

definition bind_err :: "error + 'a \<Rightarrow> ('a \<Rightarrow> error + 'b) \<Rightarrow> error + 'b" where
  "bind_err m f = (case m of Inl e \<Rightarrow> Inl e | Inr x \<Rightarrow> f x)"

text \<open>
  One pass of \<open>_recursive_extract\<close> over an event: the records under \<open>markets\<close>, then the
  meta fields \<open>event_ticker\<close>, \<open>series_ticker\<close>, \<open>title\<close>, each of which must be a key.
\<close>

definition extract_event :: "event \<Rightarrow> error + (market list \<times> val \<times> val \<times> val)" where
  "extract_event e =
     bind_err (pull_records e) (\<lambda>recs.
     bind_err (pull_field e ''event_ticker'') (\<lambda>t.
     bind_err (pull_field e ''series_ticker'') (\<lambda>s.
     bind_err (pull_field e ''title'') (\<lambda>ti.
     Inr (recs, t, s, ti)))))"

fun recursive_extract :: "event list \<Rightarrow> error + (market list \<times> val \<times> val \<times> val) list" where
  "recursive_extract [] = Inr []"
| "recursive_extract (e # es) =
     bind_err (extract_event e) (\<lambda>x.
     bind_err (recursive_extract es) (\<lambda>xs. Inr (x # xs)))"

text \<open>
  \<open>pd.json_normalize(events, record_path=['markets'], meta=['event_ticker', 'series_ticker',
  'title'], record_prefix='market_', meta_prefix='event_')\<close>. An empty input gives the
  empty frame with no column at all. Otherwise the frame of all records gets the record
  prefix, then one column per meta field, its values repeated once per record of the event.
\<close>

definition json_normalize :: "event list \<Rightarrow> error + frame" where
  "json_normalize events =
     (if events = [] then Inr \<lparr>columns = [], rows = []\<rparr>
      else bind_err (recursive_extract events) (\<lambda>xs.
        let result = rename_columns (\<lambda>x. ''market_'' @ x) (DataFrame (concat (map fst xs)));
            meta = concat (map (\<lambda>(recs, m). replicate (length recs) m) xs)
        in Inr (assign ''event_title'' (map (\<lambda>(t, s, ti). ti) meta)
                 (assign ''event_series_ticker'' (map (\<lambda>(t, s, ti). s) meta)
                   (assign ''event_event_ticker'' (map (\<lambda>(t, s, ti). t) meta) result)))))"

text \<open>
  The dict that \<open>pd.DataFrame(events)\<close> sees. The cell under \<open>markets\<close> holds the list
  object; the column is dropped before any of its cells is read, so the cell is left empty.
\<close>

definition event_dict :: "event \<Rightarrow> row" where
  "event_dict e = members e @ (case markets e of None \<Rightarrow> [] | Some ms \<Rightarrow> [(''markets'', None)])"

text \<open>
  \<open>left.merge(right, left_on=lk, right_on=rk, how='left', suffixes=(ls, rs))\<close>. Both key
  columns must exist. A label on both sides takes the side's suffix. Every left row is kept,
  in order: once for each right row with an equal key (missing keys match each other), or
  once with empty right cells when there is none. Frames with a repeated label are outside
  this model; pandas rejects them when the suffixes produce them, and so does the model.
\<close>

definition merge_left ::
  "frame \<Rightarrow> frame \<Rightarrow> string \<Rightarrow> string \<Rightarrow> string \<times> string \<Rightarrow> error + frame" where
  "merge_left left right lk rk suffixes =
     (if rk \<notin> set (columns right) then Inl (KeyError rk)
      else if lk \<notin> set (columns left) then Inl (KeyError lk)
      else
        let lname = (\<lambda>c. if c \<in> set (columns right) then c @ fst suffixes else c);
            rname = (\<lambda>c. if c \<in> set (columns left) then c @ snd suffixes else c);
            cols = map lname (columns left) @ map rname (columns right);
            lrow = (\<lambda>l. map (\<lambda>c. (lname c, cell l c)) (columns left));
            rrow = (\<lambda>r. map (\<lambda>c. (rname c, cell r c)) (columns right));
            nulls = map (\<lambda>c. (rname c, None)) (columns right);
            joined = (\<lambda>l.
              case filter (\<lambda>r. cell r rk = cell l lk) (rows right) of
                [] \<Rightarrow> [lrow l @ nulls]
              | ms \<Rightarrow> map (\<lambda>r. lrow l @ rrow r) ms)
        in if \<not> distinct cols then Inl (MergeError ''duplicate columns'')
           else Inr \<lparr>columns = cols, rows = concat (map joined (rows left))\<rparr>)"

definition front_columns :: "string list" where
  "front_columns = [''title'', ''sub_title'', ''market_rules_primary'', ''market_rules_secondary'']"

text \<open>Lines 69 to 90 of \<open>get_events_dataframe\<close>: from the fetched events to the working frame.\<close>

definition flatten_events :: "event list \<Rightarrow> error + frame" where
  "flatten_events events =
     (let events_df = DataFrame (map event_dict events) in
      bind_err (json_normalize events) (\<lambda>markets_df.
      bind_err (merge_left markets_df events_df ''event_event_ticker'' ''event_ticker''
                  (''_market'', ''_event'')) (\<lambda>df.
      let cols = front_columns @ filter (\<lambda>c. c \<notin> set front_columns) (columns df) in
      bind_err (getitem_columns df cols) (\<lambda>df.
      let df = loc_columns (\<lambda>c. \<not> startswith c ''market_custom_strike'') df;
          df = drop_columns [''markets''] df;
          df = assign ''market_status_change_time'' (replicate (length (rows df)) None) df
      in Inr df))))"

section \<open>Text of numbers and times\<close>

fun dec :: "nat \<Rightarrow> string" where
  "dec n = (if n < 10 then [''0123456789'' ! n] else dec (n div 10) @ [''0123456789'' ! (n mod 10)])"

declare dec.simps [simp del]

definition zero_pad :: "nat \<Rightarrow> nat \<Rightarrow> string" where
  "zero_pad k n = replicate (k - length (dec n)) (CHR ''0'') @ dec n"

record datetime =
  year :: nat
  month :: nat
  day :: nat
  hour :: nat
  minute :: nat
  second :: nat
  microsecond :: nat

text \<open>\<open>strftime('%Y-%m-%d')\<close>, and \<open>isoformat()\<close> of a datetime whose zone is UTC.\<close>

definition strftime_date :: "datetime \<Rightarrow> string" where
  "strftime_date t = zero_pad 4 (year t) @ ''-'' @ zero_pad 2 (month t) @ ''-'' @ zero_pad 2 (day t)"

definition isoformat :: "datetime \<Rightarrow> string" where
  "isoformat t =
     strftime_date t @ ''T'' @ zero_pad 2 (hour t) @ '':'' @ zero_pad 2 (minute t) @ '':'' @
     zero_pad 2 (second t) @
     (if microsecond t = 0 then [] else ''.'' @ zero_pad 6 (microsecond t)) @ ''+00:00''"

text \<open>\<open>str(v)\<close> of a cell, and \<open>str(list_of_labels)\<close> for labels without quotes in them.\<close>

definition str_val :: "val \<Rightarrow> string" where
  "str_val v = (case v of None \<Rightarrow> ''None'' | Some s \<Rightarrow> s)"

fun join_labels :: "string list \<Rightarrow> string" where
  "join_labels [] = []"
| "join_labels [c] = [CHR 0x27] @ c @ [CHR 0x27]"
| "join_labels (c # cs) = [CHR 0x27] @ c @ [CHR 0x27] @ '', '' @ join_labels cs"

definition str_list :: "string list \<Rightarrow> string" where
  "str_list cs = ''['' @ join_labels cs @ '']''"

section \<open>The world: SQLite file, log, clock\<close>

text \<open>
  The SQLite file holds at most the table \<open>markets\<close>. The storage engine is outside the
  repository: each time the client reaches it (a connection with the statement it runs)
  it either raises or carries the statement out. \<open>faults\<close> lists what it will do on the
  next calls, \<open>Some e\<close> to raise \<open>e\<close> and \<open>None\<close> to work; an empty list means no
  further fault. The log is the list of records handed to the logger; the clock answers
  \<open>datetime.now(timezone.utc)\<close>, one reading per call.
\<close>

record table =
  tcols :: "string list"
  trows :: "row list"

datatype log_entry = Info string | Exception string

record world =
  db_file :: string
  file_exists :: bool
  db :: "table option"
  faults :: "error option list"
  logs :: "log_entry list"
  clock :: "nat \<Rightarrow> datetime"
  ticks :: nat

type_synonym 'a io = "world \<Rightarrow> (error + 'a) \<times> world"

definition return :: "'a \<Rightarrow> 'a io" where
  "return x w = (Inr x, w)"

definition raise :: "error \<Rightarrow> 'a io" where
  "raise e w = (Inl e, w)"

definition bind_io :: "'a io \<Rightarrow> ('a \<Rightarrow> 'b io) \<Rightarrow> 'b io" where
  "bind_io m f w = (case m w of (Inl e, w') \<Rightarrow> (Inl e, w') | (Inr x, w') \<Rightarrow> f x w')"

definition lift :: "error + 'a \<Rightarrow> 'a io" where
  "lift r w = (r, w)"

definition log :: "log_entry \<Rightarrow> unit io" where
  "log m w = (Inr (), w\<lparr>logs := logs w @ [m]\<rparr>)"

definition now :: "datetime io" where
  "now w = (Inr (clock w (ticks w)), w\<lparr>ticks := Suc (ticks w)\<rparr>)"

text \<open>
  \<open>try: body except exc.SQLAlchemyError: logger.exception(msg); raise\<close>. Only errors of
  that class are caught; whatever is caught is raised again.
\<close>

definition except_SQLAlchemyError :: "'a io \<Rightarrow> string \<Rightarrow> 'a io" where
  "except_SQLAlchemyError body msg w =
     (case body w of
        (Inl (SQLAlchemyError x), w') \<Rightarrow>
          (Inl (SQLAlchemyError x), w'\<lparr>logs := logs w' @ [Exception msg]\<rparr>)
      | r \<Rightarrow> r)"

text \<open>One call of the engine: the pending fault is consumed; connecting creates the file.\<close>

definition execute :: "'a io \<Rightarrow> 'a io" where
  "execute stmt w =
     (case faults w of
        Some e # fs \<Rightarrow> (Inl e, w\<lparr>faults := fs\<rparr>)
      | _ \<Rightarrow> stmt (w\<lparr>file_exists := True, faults := tl (faults w)\<rparr>))"

subsection \<open>What the statements do\<close>

definition table_name :: string where
  "table_name = ''markets''"

definition has_table :: "bool io" where
  "has_table w = (Inr (db w \<noteq> None), w)"

text \<open>\<open>df.to_sql(table, engine, index=False, if_exists='fail')\<close> of a frame without rows.\<close>

definition to_sql_fail :: "string list \<Rightarrow> unit io" where
  "to_sql_fail cols w =
     (case db w of
        Some t \<Rightarrow> (Inl (ValueError ''Table 'markets' already exists.''), w)
      | None \<Rightarrow> (Inr (), w\<lparr>db := Some \<lparr>tcols = cols, trows = []\<rparr>\<rparr>))"

definition get_columns :: "string list io" where
  "get_columns w =
     (case db w of
        None \<Rightarrow> (Inl (SQLAlchemyError ''NoSuchTableError''), w)
      | Some t \<Rightarrow> (Inr (tcols t), w))"

text \<open>\<open>ALTER TABLE markets ADD COLUMN c TEXT\<close>: old rows read NULL in the new column.\<close>

definition alter_add_column :: "string \<Rightarrow> unit io" where
  "alter_add_column c w =
     (case db w of
        None \<Rightarrow> (Inl (SQLAlchemyError ''no such table''), w)
      | Some t \<Rightarrow>
          if c \<in> set (tcols t) then (Inl (SQLAlchemyError ''duplicate column name''), w)
          else (Inr (), w\<lparr>db := Some \<lparr>tcols = tcols t @ [c],
                                         trows = map (\<lambda>r. r @ [(c, None)]) (trows t)\<rparr>\<rparr>))"

text \<open>\<open>pd.read_sql_table(table, engine, columns=cols)\<close>.\<close>

definition read_sql_table :: "string list \<Rightarrow> row list io" where
  "read_sql_table cols w =
     (case db w of
        None \<Rightarrow> (Inl (ValueError ''Table markets not found''), w)
      | Some t \<Rightarrow>
          (case filter (\<lambda>c. c \<notin> set (tcols t)) cols of
             [] \<Rightarrow> (Inr (map (project cols) (trows t)), w)
           | c # _ \<Rightarrow> (Inl (KeyError c), w)))"

text \<open>
  \<open>df.to_sql(table, engine, if_exists='append', index=False)\<close>: the table is created when
  it is missing; an INSERT that names a column the table lacks is refused by SQLite.
  A stored row has the table's columns.
\<close>

definition to_sql_append :: "frame \<Rightarrow> unit io" where
  "to_sql_append df w =
     (case db w of
        None \<Rightarrow> (Inr (), w\<lparr>db := Some \<lparr>tcols = columns df,
                                         trows = map (project (columns df)) (rows df)\<rparr>\<rparr>)
      | Some t \<Rightarrow>
          if \<not> set (columns df) \<subseteq> set (tcols t)
          then (Inl (SQLAlchemyError ''table markets has no column''), w)
          else (Inr (), w\<lparr>db := Some (t\<lparr>trows := trows t @ map (project (tcols t)) (rows df)\<rparr>)\<rparr>))"

text \<open>\<open>DELETE FROM markets WHERE market_ticker = :ticker\<close>: NULL equals nothing.\<close>

definition eq_val :: "val \<Rightarrow> val \<Rightarrow> bool" where
  "eq_val a b = (a \<noteq> None \<and> a = b)"

definition sql_delete :: "val \<Rightarrow> unit io" where
  "sql_delete ticker w =
     (case db w of
        None \<Rightarrow> (Inl (SQLAlchemyError ''no such table''), w)
      | Some t \<Rightarrow>
          if ''market_ticker'' \<notin> set (tcols t)
          then (Inl (SQLAlchemyError ''no such column''), w)
          else (Inr (), w\<lparr>db := Some (t\<lparr>trows :=
                  filter (\<lambda>r. \<not> eq_val (cell r ''market_ticker'') ticker) (trows t)\<rparr>)\<rparr>))"

section \<open>DatabaseClient\<close>

text \<open>
  The client keeps the schema it was built with (a dict from column label to SQL type);
  the engine and the path are in the world. Each \<open>inspect(self.engine)\<close> with the
  question asked of it is one call of the engine, and so is each \<open>to_sql\<close>,
  \<open>read_sql_table\<close> and each connection block with its statement and commit.
\<close>

type_synonym DatabaseClient = "(string \<times> string) list"

definition quoted :: "string \<Rightarrow> string" where
  "quoted s = [CHR 0x27] @ s @ [CHR 0x27]"

definition ensure_table :: "DatabaseClient \<Rightarrow> unit io" where
  "ensure_table self =
     bind_io (execute has_table) (\<lambda>present.
       if \<not> present then
         bind_io (execute (to_sql_fail (map fst self))) (\<lambda>_.
           log (Info (''Created table '' @ quoted table_name @ '' with columns: '' @
                      str_list (map fst self))))
       else return ())"

definition ensure_status_change_column :: "DatabaseClient \<Rightarrow> unit io" where
  "ensure_status_change_column self =
     bind_io (execute get_columns) (\<lambda>cols.
       if ''market_status_change_time'' \<notin> set cols then
         except_SQLAlchemyError
           (bind_io (execute (alter_add_column ''market_status_change_time'')) (\<lambda>_.
              log (Info (''Added column '' @ quoted ''market_status_change_time'' @ ''.''))))
           ''Failed to add status change column.''
       else return ())"

definition init_DatabaseClient :: "(string \<times> string) list \<Rightarrow> DatabaseClient io" where
  "init_DatabaseClient schema =
     bind_io (\<lambda>w. log (Info (''Connected to database at '' @ db_file w)) w) (\<lambda>_.
     bind_io (ensure_table schema) (\<lambda>_.
     bind_io (ensure_status_change_column schema) (\<lambda>_.
     return schema)))"

definition dropna :: "val list \<Rightarrow> string list" where
  "dropna vs = concat (map (\<lambda>v. case v of None \<Rightarrow> [] | Some s \<Rightarrow> [s]) vs)"

definition get_existing_market_tickers :: "DatabaseClient \<Rightarrow> string set io" where
  "get_existing_market_tickers self =
     bind_io (execute has_table) (\<lambda>present.
       if \<not> present then return {}
       else
         bind_io (execute (read_sql_table [''market_ticker''])) (\<lambda>df.
           return (set (unique (dropna (map (\<lambda>r. cell r ''market_ticker'') df))))))"

text \<open>\<open>dict(zip(tickers, statuses))\<close>: for a ticker stored twice the later row wins.\<close>

definition get_market_status_map :: "DatabaseClient \<Rightarrow> (val \<rightharpoonup> val) io" where
  "get_market_status_map self =
     bind_io (execute has_table) (\<lambda>present.
       if \<not> present then return Map.empty
       else
         bind_io (execute (read_sql_table [''market_ticker'', ''market_status''])) (\<lambda>df.
           return (map_of (rev (zip (map (\<lambda>r. cell r ''market_ticker'') df)
                                     (map (\<lambda>r. cell r ''market_status'') df))))))"

definition append_dataframe :: "DatabaseClient \<Rightarrow> frame \<Rightarrow> unit io" where
  "append_dataframe self df =
     except_SQLAlchemyError
       (bind_io (execute (to_sql_append df)) (\<lambda>_.
          log (Info (''Inserted '' @ dec (length (rows df)) @ '' new rows into '' @
                     quoted table_name @ ''.''))))
       ''DB insert failed.''"

definition delete_market :: "DatabaseClient \<Rightarrow> val \<Rightarrow> unit io" where
  "delete_market self ticker =
     except_SQLAlchemyError
       (bind_io (execute (sql_delete ticker)) (\<lambda>_.
          log (Info (''Deleted market '' @ quoted (str_val ticker) @ '' from database.''))))
       (''Failed to delete market '' @ quoted (str_val ticker) @ ''.'')"

section \<open>MarketCollector\<close>

definition CLOSED_STATUSES :: "string set" where
  "CLOSED_STATUSES = {''finalized'', ''inactive'', ''closed'', ''settled''}"

text \<open>Membership of a cell in a set of strings; a missing value is in none.\<close>

definition isin :: "val \<Rightarrow> string set \<Rightarrow> bool" where
  "isin v S = (case v of None \<Rightarrow> False | Some s \<Rightarrow> s \<in> S)"

text \<open>The row filter of line 103 and the test of line 114.\<close>

definition new_active_row :: "string set \<Rightarrow> row \<Rightarrow> bool" where
  "new_active_row existing r =
     (\<not> isin (cell r ''market_ticker'') existing \<and> cell r ''market_status'' = Some ''active'')"

definition closed_row :: "string set \<Rightarrow> (val \<rightharpoonup> val) \<Rightarrow> row \<Rightarrow> bool" where
  "closed_row existing status_map r =
     (isin (cell r ''market_ticker'') existing \<and>
      status_map (cell r ''market_ticker'') = Some (Some ''active'') \<and>
      isin (cell r ''market_status'') CLOSED_STATUSES)"

text \<open>\<open>df[c]\<close> with one label: KeyError when it is not a column.\<close>

definition getitem :: "frame \<Rightarrow> string \<Rightarrow> error + val list" where
  "getitem df c =
     (if c \<in> set (columns df) then Inr (map (\<lambda>r. cell r c) (rows df)) else Inl (KeyError c))"

text \<open>Lines 102 to 107: the insert pass, which returns \<open>opened_count\<close>.\<close>

definition insert_pass :: "DatabaseClient \<Rightarrow> frame \<Rightarrow> string set \<Rightarrow> nat io" where
  "insert_pass db_client df existing =
     bind_io (lift (getitem df ''market_ticker'')) (\<lambda>_.
     bind_io (lift (getitem df ''market_status'')) (\<lambda>_.
       let new_active = df\<lparr>rows := filter (new_active_row existing) (rows df)\<rparr>;
           opened_count = length (rows new_active)
       in if opened_count \<noteq> 0 then
            bind_io (append_dataframe db_client new_active) (\<lambda>_.
            bind_io (log (Info (''Inserted '' @ dec opened_count @ '' new active records.''))) (\<lambda>_.
            return opened_count))
          else return opened_count))"

text \<open>\<open>df.loc[df['market_ticker'] == ticker, 'market_status_change_time'] = change_time\<close>.\<close>

definition stamp :: "val \<Rightarrow> string \<Rightarrow> frame \<Rightarrow> frame" where
  "stamp ticker change_time df =
     df\<lparr>rows := map (\<lambda>r. if eq_val (cell r ''market_ticker'') ticker
                           then AList.update ''market_status_change_time'' (Some change_time) r
                           else r) (rows df)\<rparr>"

text \<open>
  Lines 109 to 118: the closure pass. \<open>iterrows\<close> walks the rows as they were when the
  loop began; the frame and \<open>closed_count\<close> are carried along.
\<close>

fun closure_pass ::
  "DatabaseClient \<Rightarrow> string set \<Rightarrow> (val \<rightharpoonup> val) \<Rightarrow> row list \<Rightarrow> frame \<times> nat \<Rightarrow> (frame \<times> nat) io" where
  "closure_pass db_client existing status_map [] (df, closed_count) = return (df, closed_count)"
| "closure_pass db_client existing status_map (row # rest) (df, closed_count) =
     (let ticker = cell row ''market_ticker'' in
      if closed_row existing status_map row then
        bind_io now (\<lambda>t.
        let change_time = isoformat t;
            df = stamp ticker change_time df
        in bind_io (delete_market db_client ticker) (\<lambda>_.
           closure_pass db_client existing status_map rest (df, closed_count + 1)))
      else closure_pass db_client existing status_map rest (df, closed_count))"

text \<open>Lines 120 to 126: the summary, which returns \<open>total_active\<close>.\<close>

definition summary_report :: "DatabaseClient \<Rightarrow> nat \<Rightarrow> nat \<Rightarrow> nat io" where
  "summary_report db_client closed_count opened_count =
     bind_io (get_existing_market_tickers db_client) (\<lambda>tickers.
     let total_active = card tickers in
     bind_io now (\<lambda>t.
     let summary_date = strftime_date t in
     bind_io (log (Info (''Summary for '' @ summary_date @ '':''))) (\<lambda>_.
     bind_io (log (Info (''   '' @ dec total_active @ '': number of active markets''))) (\<lambda>_.
     bind_io (log (Info (''   '' @ dec closed_count @
                         '': number of markets closed since last run''))) (\<lambda>_.
     bind_io (log (Info (''   '' @ dec opened_count @
                         '': number of markets opened since last run''))) (\<lambda>_.
     return total_active))))))"

text \<open>
  Lines 92 to 126 on the working frame: the client is built, the existing tickers and the
  status map are read, then the two passes and the summary run. The result carries the
  locals \<open>df\<close>, \<open>opened_count\<close>, \<open>closed_count\<close> and \<open>total_active\<close>.
\<close>

record cycle =
  frame_of :: frame
  opened :: nat
  closed :: nat
  total_active :: nat

definition reconcile :: "frame \<Rightarrow> cycle io" where
  "reconcile df =
     (let schema = map (\<lambda>c. (c, ''TEXT'')) (columns df) in
      bind_io (init_DatabaseClient schema) (\<lambda>db_client.
      bind_io (\<lambda>w. (if file_exists w then get_existing_market_tickers db_client
                     else return {}) w) (\<lambda>existing.
      bind_io (get_market_status_map db_client) (\<lambda>status_map.
      bind_io (insert_pass db_client df existing) (\<lambda>opened_count.
      bind_io (closure_pass db_client existing status_map (rows df) (df, 0)) (\<lambda>(df', closed_count).
      bind_io (summary_report db_client closed_count opened_count) (\<lambda>total.
      return \<lparr>frame_of = df', opened = opened_count, closed = closed_count,
              total_active = total\<rparr>)))))))"

text \<open>
  \<open>get_events_dataframe\<close> once the pages have been fetched: \<open>events\<close> is the list the
  pagination loop has collected. The function returns the working frame.
\<close>

definition get_events_dataframe :: "event list \<Rightarrow> frame io" where
  "get_events_dataframe events =
     bind_io (lift (flatten_events events)) (\<lambda>df.
     bind_io (reconcile df) (\<lambda>c.
     return (frame_of c)))"

section \<open>Notions used in the statements\<close>

text \<open>
  What the store holds, read off a table without going through the engine; the table as the
  client leaves it once it is built; the tickers the closure pass deletes, in loop order;
  the log records of a deletion and of the summary; the number of markets under a list of
  events.
\<close>

definition market_count :: "event list \<Rightarrow> nat" where
  "market_count events = sum_list (map (\<lambda>e. case markets e of None \<Rightarrow> 0 | Some ms \<Rightarrow> length ms) events)"

definition stored_tickers :: "table option \<Rightarrow> string set" where
  "stored_tickers d = (case d of None \<Rightarrow> {} | Some t \<Rightarrow> set (dropna (map (\<lambda>r. cell r ''market_ticker'') (trows t))))"

definition stored_status :: "table option \<Rightarrow> (val \<rightharpoonup> val)" where
  "stored_status d = (case d of None \<Rightarrow> Map.empty | Some t \<Rightarrow>
     map_of (rev (map (\<lambda>r. (cell r ''market_ticker'', cell r ''market_status'')) (trows t))))"

definition opened_table :: "string list \<Rightarrow> table option \<Rightarrow> table" where
  "opened_table cols d =
     (let t = (case d of None \<Rightarrow> \<lparr>tcols = cols, trows = []\<rparr> | Some t \<Rightarrow> t)
      in if ''market_status_change_time'' \<in> set (tcols t) then t
         else \<lparr>tcols = tcols t @ [''market_status_change_time''],
               trows = map (\<lambda>r. r @ [(''market_status_change_time'', None)]) (trows t)\<rparr>)"

definition closed_tickers :: "string set \<Rightarrow> (val \<rightharpoonup> val) \<Rightarrow> row list \<Rightarrow> val list" where
  "closed_tickers existing status_map rs =
     map (\<lambda>r. cell r ''market_ticker'') (filter (closed_row existing status_map) rs)"

definition deleted_message :: "val \<Rightarrow> log_entry" where
  "deleted_message v = Info (''Deleted market '' @ quoted (str_val v) @ '' from database.'')"


definition ex_clock :: "nat \<Rightarrow> datetime" where
  "ex_clock n = \<lparr>year = 2025, month = 6, day = 30, hour = 23, minute = 59, second = n,
                 microsecond = 0\<rparr>"

definition ex_table :: table where
  "ex_table = \<lparr>tcols = [''market_ticker'', ''market_status'', ''market_status_change_time''],
     trows = [[(''market_ticker'', Some ''T1''), (''market_status'', Some ''active''), (''market_status_change_time'', None)],
              [(''market_ticker'', Some ''T2''), (''market_status'', Some ''active''), (''market_status_change_time'', None)],
              [(''market_ticker'', Some ''T1''), (''market_status'', Some ''active''), (''market_status_change_time'', None)],
              [(''market_ticker'', None), (''market_status'', Some ''active''), (''market_status_change_time'', None)]]\<rparr>"

definition ex_world :: world where
  "ex_world = \<lparr>db_file = ''/data/markets.db'', file_exists = True, db = Some ex_table,
     faults = [], logs = [], clock = ex_clock, ticks = 0\<rparr>"

definition failing_world :: world where
  "failing_world = ex_world\<lparr>faults := [Some (SQLAlchemyError ''database is locked'')]\<rparr>"

definition fresh_world :: world where
  "fresh_world = ex_world\<lparr>file_exists := False, db := None,
     faults := [None, Some (SQLAlchemyError ''unable to open database file'')]\<rparr>"

definition ex_frame :: frame where
  "ex_frame = \<lparr>columns = [''market_ticker'', ''market_status'', ''market_status_change_time''],
     rows = [[(''market_ticker'', Some ''T1''), (''market_status'', Some ''settled''), (''market_status_change_time'', None)],
             [(''market_ticker'', Some ''T2''), (''market_status'', Some ''active''), (''market_status_change_time'', None)],
             [(''market_ticker'', Some ''T3''), (''market_status'', Some ''active''), (''market_status_change_time'', None)]]\<rparr>"

definition quiet_frame :: frame where
  "quiet_frame = \<lparr>columns = [''market_ticker'', ''market_status'', ''market_status_change_time''],
     rows = [[(''market_ticker'', Some ''T2''), (''market_status'', Some ''active''), (''market_status_change_time'', None)],
             [(''market_ticker'', Some ''T5''), (''market_status'', Some ''settled''), (''market_status_change_time'', None)]]\<rparr>"

definition no_custom_strike :: "frame \<Rightarrow> bool" where
  "no_custom_strike df =
     ((\<forall>c\<in>set (columns df). \<not> startswith c ''market_custom_strike'') \<and>
      (\<forall>r\<in>set (rows df). \<forall>c\<in>set (map fst r). \<not> startswith c ''market_custom_strike''))"

definition ex_market1 :: market where
  "ex_market1 = [(''ticker'', Some ''T1''), (''status'', Some ''active''),
     (''rules_primary'', Some ''pays 1 if yes''), (''rules_secondary'', None),
     (''custom_strike.Team'', Some ''home'')]"

definition ex_market2 :: market where
  "ex_market2 = [(''ticker'', Some ''T2''), (''status'', Some ''settled''),
     (''rules_primary'', Some ''pays 1 if no''), (''rules_secondary'', None)]"

definition ex_events :: "event list" where
  "ex_events =
     [\<lparr>members = [(''event_ticker'', Some ''E1''), (''series_ticker'', Some ''S1''),
                  (''title'', Some ''first''), (''sub_title'', Some ''a'')],
       markets = Some [ex_market1, ex_market2]\<rparr>,
      \<lparr>members = [(''event_ticker'', Some ''E2''), (''series_ticker'', Some ''S1''),
                  (''title'', Some ''second''), (''sub_title'', Some ''b'')],
       markets = Some []\<rparr>]"

definition dup_events :: "event list" where
  "dup_events =
     [\<lparr>members = [(''event_ticker'', Some ''E1''), (''series_ticker'', Some ''S1''),
                  (''title'', Some ''first''), (''sub_title'', Some ''a'')],
       markets = Some [ex_market1]\<rparr>,
      \<lparr>members = [(''event_ticker'', Some ''E1''), (''series_ticker'', Some ''S1''),
                  (''title'', Some ''first again''), (''sub_title'', Some ''a'')],
       markets = Some []\<rparr>]"

definition no_market_events :: "event list" where
  "no_market_events =
     [\<lparr>members = [(''event_ticker'', Some ''E2''), (''series_ticker'', Some ''S1''),
                  (''title'', Some ''second''), (''sub_title'', Some ''b'')],
       markets = Some []\<rparr>]"




definition new_active :: "frame \<Rightarrow> table option \<Rightarrow> row list" where
  "new_active df d = filter (new_active_row (stored_tickers d)) (rows df)"




section \<open>How the operations act on the world\<close>

lemma bind_io_Inr:
  "bind_io m f w = (Inr y, w') \<longleftrightarrow> (\<exists>x w1. m w = (Inr x, w1) \<and> f x w1 = (Inr y, w'))"
  by (auto simp: bind_io_def split: prod.splits sum.splits)

lemma bind_io_Inl:
  "bind_io m f w = (Inl e, w') \<longleftrightarrow>
     m w = (Inl e, w') \<or> (\<exists>x w1. m w = (Inr x, w1) \<and> f x w1 = (Inl e, w'))"
  by (auto simp: bind_io_def split: prod.splits sum.splits)

lemma except_Inr:
  "except_SQLAlchemyError body msg w = (Inr x, w') \<longleftrightarrow> body w = (Inr x, w')"
  by (auto simp: except_SQLAlchemyError_def split: prod.splits sum.splits error.splits)

lemma execute_Inr:
  "execute stmt w = (Inr x, w') \<Longrightarrow>
     \<exists>fs. stmt (w\<lparr>file_exists := True, faults := fs\<rparr>) = (Inr x, w')"
  by (auto simp: execute_def split: list.splits option.splits)

lemma return_eq: "return x w = (r, w') \<longleftrightarrow> r = Inr x \<and> w' = w"
  by (auto simp: return_def)

lemma log_eq: "log m w = (r, w') \<longleftrightarrow> r = Inr () \<and> w' = w\<lparr>logs := logs w @ [m]\<rparr>"
  by (auto simp: log_def)

lemma now_eq: "now w = (r, w') \<longleftrightarrow> r = Inr (clock w (ticks w)) \<and> w' = w\<lparr>ticks := Suc (ticks w)\<rparr>"
  by (auto simp: now_def)

lemma lift_eq: "lift x w = (r, w') \<longleftrightarrow> r = x \<and> w' = w"
  by (auto simp: lift_def)

lemma ensure_table_Inr:
  assumes "ensure_table self w = (Inr u, w')"
  shows "db w' = Some (case db w of None \<Rightarrow> \<lparr>tcols = map fst self, trows = []\<rparr> | Some t \<Rightarrow> t)"
    and "ticks w' = ticks w" and "clock w' = clock w" and "file_exists w'"
    and "\<exists>l. logs w' = logs w @ l"
  using assms
  by (auto simp: ensure_table_def bind_io_Inr has_table_def to_sql_fail_def return_eq log_eq
      dest!: execute_Inr split: if_splits option.splits)

lemma ensure_status_change_column_Inr:
  assumes "ensure_status_change_column self w = (Inr u, w')" and "db w = Some t"
  shows "db w' = Some (opened_table cols (Some t))"
    and "ticks w' = ticks w" and "clock w' = clock w" and "file_exists w'"
    and "\<exists>l. logs w' = logs w @ l"
  using assms
  by (auto simp: ensure_status_change_column_def bind_io_Inr get_columns_def alter_add_column_def
      return_eq log_eq except_Inr opened_table_def
      dest!: execute_Inr split: if_splits option.splits)

lemma init_DatabaseClient_Inr:
  assumes "init_DatabaseClient schema w = (Inr c, w')"
  shows "c = schema" and "db w' = Some (opened_table (map fst schema) (db w))"
    and "ticks w' = ticks w" and "clock w' = clock w" and "file_exists w'"
    and "\<exists>l. logs w' = logs w @ l"
proof -
  from assms obtain w1 w2 u v where
    w1: "w1 = w\<lparr>logs := logs w @ [Info (''Connected to database at '' @ db_file w)]\<rparr>" and
    w2: "ensure_table schema w1 = (Inr u, w2)" and
    w3: "ensure_status_change_column schema w2 = (Inr v, w')" and c: "c = schema"
    by (auto simp: init_DatabaseClient_def bind_io_Inr log_eq return_eq)
  show "c = schema" by fact
  from ensure_table_Inr(1) [OF w2] obtain t where t: "db w2 = Some t"
    and t': "t = (case db w of None \<Rightarrow> \<lparr>tcols = map fst schema, trows = []\<rparr> | Some t \<Rightarrow> t)"
    by (simp add: w1)
  from ensure_status_change_column_Inr(1) [OF w3 t, of "map fst schema"] t'
  show "db w' = Some (opened_table (map fst schema) (db w))"
    by (simp add: opened_table_def split: option.splits)
  from ensure_status_change_column_Inr(2) [OF w3 t] ensure_table_Inr(2) [OF w2]
  show "ticks w' = ticks w" by (simp add: w1)
  from ensure_status_change_column_Inr(3) [OF w3 t] ensure_table_Inr(3) [OF w2]
  show "clock w' = clock w" by (simp add: w1)
  from ensure_status_change_column_Inr(4) [OF w3 t]
  show "file_exists w'" .
  from ensure_status_change_column_Inr(5) [OF w3 t] ensure_table_Inr(5) [OF w2]
  show "\<exists>l. logs w' = logs w @ l" by (auto simp: w1)
qed

lemma set_unique: "set (unique xs) = set xs"
  by (simp add: unique_def)

lemma cell_project: "c \<in> set cols \<Longrightarrow> cell (project cols r) c = cell r c"
  by (induction cols) (auto simp: project_def cell_def)

lemma get_existing_market_tickers_Inr:
  assumes "get_existing_market_tickers self w = (Inr S, w')"
  shows "S = stored_tickers (db w)" and "db w' = db w"
    and "ticks w' = ticks w" and "clock w' = clock w" and "logs w' = logs w"
    and "db w \<noteq> None \<Longrightarrow> ''market_ticker'' \<in> set (tcols (the (db w)))"
  using assms
  by (auto simp: get_existing_market_tickers_def bind_io_Inr has_table_def read_sql_table_def
      return_eq stored_tickers_def set_unique comp_def cell_project
      dest!: execute_Inr split: if_splits option.splits list.splits)

lemma zip_map_same: "zip (map f xs) (map g xs) = map (\<lambda>x. (f x, g x)) xs"
  by (induction xs) auto

lemma get_market_status_map_Inr:
  assumes "get_market_status_map self w = (Inr m, w')"
  shows "m = stored_status (db w)" and "db w' = db w"
    and "ticks w' = ticks w" and "clock w' = clock w" and "logs w' = logs w"
  using assms
  by (auto simp: get_market_status_map_def bind_io_Inr has_table_def read_sql_table_def
      return_eq stored_status_def comp_def cell_project zip_map_same
      dest!: execute_Inr split: if_splits option.splits list.splits)

lemma append_dataframe_Inr:
  assumes "append_dataframe self df w = (Inr u, w')" and "db w = Some t"
  shows "db w' = Some (t\<lparr>trows := trows t @ map (project (tcols t)) (rows df)\<rparr>)"
    and "ticks w' = ticks w" and "clock w' = clock w"
    and "logs w' = logs w @ [Info (''Inserted '' @ dec (length (rows df)) @ '' new rows into '' @
                     quoted table_name @ ''.'')]"
  using assms
  by (auto simp: append_dataframe_def except_Inr bind_io_Inr to_sql_append_def log_eq
      dest!: execute_Inr split: if_splits)

lemma insert_pass_Inr:
  assumes "insert_pass c df ex w = (Inr n, w')" and "db w = Some t"
  shows "n = length (filter (new_active_row ex) (rows df))"
    and "db w' = Some (t\<lparr>trows := trows t @
           map (project (tcols t)) (filter (new_active_row ex) (rows df))\<rparr>)"
    and "ticks w' = ticks w" and "clock w' = clock w"
    and "logs w' = logs w @ (if n = 0 then [] else
           [Info (''Inserted '' @ dec n @ '' new rows into '' @ quoted table_name @ ''.''),
            Info (''Inserted '' @ dec n @ '' new active records.'')])"
proof -
  let ?new = "filter (new_active_row ex) (rows df)"
  have "n = length ?new \<and>
        db w' = Some (t\<lparr>trows := trows t @ map (project (tcols t)) ?new\<rparr>) \<and>
        ticks w' = ticks w \<and> clock w' = clock w \<and>
        logs w' = logs w @ (if n = 0 then [] else
           [Info (''Inserted '' @ dec n @ '' new rows into '' @ quoted table_name @ ''.''),
            Info (''Inserted '' @ dec n @ '' new active records.'')])"
  proof (cases "?new = []")
    case True
    with assms show ?thesis
      by (auto simp: insert_pass_def bind_io_Inr lift_eq return_eq Let_def)
  next
    case False
    with assms(1) obtain u w1 where
      a: "append_dataframe c (df\<lparr>rows := ?new\<rparr>) w = (Inr u, w1)" and
      w': "w' = w1\<lparr>logs := logs w1 @ [Info (''Inserted '' @ dec (length ?new) @ '' new active records.'')]\<rparr>" and
      n: "n = length ?new"
      by (auto simp: insert_pass_def bind_io_Inr lift_eq return_eq log_eq Let_def)
    from append_dataframe_Inr [OF a assms(2)] False show ?thesis
      by (simp add: w' n)
  qed
  then show "n = length ?new"
    and "db w' = Some (t\<lparr>trows := trows t @ map (project (tcols t)) ?new\<rparr>)"
    and "ticks w' = ticks w" and "clock w' = clock w"
    and "logs w' = logs w @ (if n = 0 then [] else
           [Info (''Inserted '' @ dec n @ '' new rows into '' @ quoted table_name @ ''.''),
            Info (''Inserted '' @ dec n @ '' new active records.'')])"
    by simp_all
qed

lemma eq_val_Some: "eq_val a (Some s) \<longleftrightarrow> a = Some s"
  by (auto simp: eq_val_def)

lemma delete_market_Inr:
  assumes "delete_market self v w = (Inr u, w')"
  shows "db w' = map_option (\<lambda>t. t\<lparr>trows := filter (\<lambda>r. \<not> eq_val (cell r ''market_ticker'') v) (trows t)\<rparr>) (db w)"
    and "ticks w' = ticks w" and "clock w' = clock w"
    and "logs w' = logs w @ [deleted_message v]"
  using assms
  by (auto simp: delete_market_def except_Inr bind_io_Inr sql_delete_def log_eq deleted_message_def
      dest!: execute_Inr split: if_splits option.splits)

lemma closure_pass_Inr:
  assumes "closure_pass c ex sm rs (df, n) w = (Inr (df', n'), w')"
  shows "n' = n + length (filter (closed_row ex sm) rs)
       \<and> db w' = map_option (\<lambda>t. t\<lparr>trows := filter (\<lambda>s. cell s ''market_ticker'' \<notin> set (closed_tickers ex sm rs)) (trows t)\<rparr>) (db w)
       \<and> ticks w' = ticks w + length (filter (closed_row ex sm) rs)
       \<and> clock w' = clock w
       \<and> logs w' = logs w @ map deleted_message (closed_tickers ex sm rs)
       \<and> columns df' = columns df"
  using assms
proof (induction rs arbitrary: df n w)
  case Nil
  then show ?case
    by (cases "db w") (auto simp: return_eq closed_tickers_def)
next
  case (Cons r rs)
  show ?case
  proof (cases "closed_row ex sm r")
    case False
    with Cons.prems have "closure_pass c ex sm rs (df, n) w = (Inr (df', n'), w')"
      by simp
    from Cons.IH [OF this] False show ?thesis
      by (simp add: closed_tickers_def)
  next
    case True
    let ?v = "cell r ''market_ticker''"
    from True Cons.prems obtain w1 w2 u dfs where
      w1: "w1 = w\<lparr>ticks := Suc (ticks w)\<rparr>" and
      dfs: "dfs = stamp ?v (isoformat (clock w (ticks w))) df" and
      w2: "delete_market c ?v w1 = (Inr u, w2)" and
      rest: "closure_pass c ex sm rs (dfs, n + 1) w2 = (Inr (df', n'), w')"
      by (auto simp: bind_io_Inr now_eq Let_def)
    from True obtain tk where tk: "?v = Some tk"
      by (auto simp: closed_row_def isin_def split: option.splits)
    note d = delete_market_Inr [OF w2]
    note ih = Cons.IH [OF rest]
    have "db w' = map_option (\<lambda>t. t\<lparr>trows := filter (\<lambda>s. cell s ''market_ticker'' \<notin> set (closed_tickers ex sm (r # rs))) (trows t)\<rparr>) (db w)"
      using ih d(1) True tk
      by (cases "db w") (auto simp: w1 closed_tickers_def eq_val_Some intro!: filter_cong)
    moreover have "columns df' = columns df"
      using ih by (simp add: dfs stamp_def)
    ultimately show ?thesis
      using ih d(2,3,4) True by (simp add: w1 closed_tickers_def)
  qed
qed

lemma cell_update_other: "c \<noteq> k \<Longrightarrow> cell (AList.update k v r) c = cell r c"
  by (simp add: cell_def update_conv')

lemma cell_update_same: "cell (AList.update k v r) k = v"
  by (simp add: cell_def update_conv')

lemma closed_tickers_skip:
  "\<not> closed_row ex sm r \<Longrightarrow> closed_tickers ex sm (r # rs) = closed_tickers ex sm rs"
  by (simp add: closed_tickers_def)

lemma closure_pass_frame:
  assumes "closure_pass c ex sm rs (df, n) w = (Inr (df', n'), w')"
  shows "length (rows df') = length (rows df) \<and>
     (\<forall>i < length (rows df).
        (if cell (rows df ! i) ''market_ticker'' \<in> set (closed_tickers ex sm rs)
         then \<exists>k. ticks w \<le> k \<and> k < ticks w + length (closed_tickers ex sm rs) \<and>
                rows df' ! i = AList.update ''market_status_change_time''
                                 (Some (isoformat (clock w k))) (rows df ! i)
         else rows df' ! i = rows df ! i))"
  using assms
proof (induction rs arbitrary: df n w)
  case Nil
  then show ?case by (simp add: return_eq closed_tickers_def)
next
  case (Cons r rs)
  show ?case
  proof (cases "closed_row ex sm r")
    case False
    with Cons.prems have "closure_pass c ex sm rs (df, n) w = (Inr (df', n'), w')"
      by simp
    from Cons.IH [OF this] show ?thesis
      unfolding closed_tickers_skip [OF False] .
  next
    case True
    let ?v = "cell r ''market_ticker''"
    let ?t = "isoformat (clock w (ticks w))"
    from True Cons.prems obtain w1 w2 u dfs where
      w1: "w1 = w\<lparr>ticks := Suc (ticks w)\<rparr>" and
      dfs: "dfs = stamp ?v ?t df" and
      w2: "delete_market c ?v w1 = (Inr u, w2)" and
      rest: "closure_pass c ex sm rs (dfs, n + 1) w2 = (Inr (df', n'), w')"
      by (auto simp: bind_io_Inr now_eq Let_def)
    from True obtain tk where tk: "?v = Some tk"
      by (auto simp: closed_row_def isin_def split: option.splits)
    from delete_market_Inr [OF w2] have env: "ticks w2 = Suc (ticks w)" "clock w2 = clock w"
      by (simp_all add: w1)
    have len: "length (rows dfs) = length (rows df)"
      by (simp add: dfs stamp_def)
    have cts: "closed_tickers ex sm (r # rs) = ?v # closed_tickers ex sm rs"
      using True by (simp add: closed_tickers_def)
    note ih = Cons.IH [OF rest]
    show ?thesis
    proof (intro conjI allI impI)
      show "length (rows df') = length (rows df)" using ih len by simp
    next
      fix i assume i: "i < length (rows df)"
      let ?r = "rows df ! i"
      have dfs_i: "rows dfs ! i = (if cell ?r ''market_ticker'' = ?v
            then AList.update ''market_status_change_time'' (Some ?t) ?r else ?r)"
        using i by (simp add: dfs stamp_def tk eq_val_Some)
      have cell_i: "cell (rows dfs ! i) ''market_ticker'' = cell ?r ''market_ticker''"
        by (simp add: dfs_i cell_update_other)
      from ih have "\<forall>i < length (rows dfs).
         (if cell (rows dfs ! i) ''market_ticker'' \<in> set (closed_tickers ex sm rs)
          then \<exists>k. ticks w2 \<le> k \<and> k < ticks w2 + length (closed_tickers ex sm rs) \<and>
                rows df' ! i = AList.update ''market_status_change_time''
                                 (Some (isoformat (clock w2 k))) (rows dfs ! i)
          else rows df' ! i = rows dfs ! i)"
        by blast
      from this [rule_format, of i] i len have step:
        "if cell ?r ''market_ticker'' \<in> set (closed_tickers ex sm rs)
         then \<exists>k. Suc (ticks w) \<le> k \<and> k < Suc (ticks w) + length (closed_tickers ex sm rs) \<and>
                rows df' ! i = AList.update ''market_status_change_time''
                                 (Some (isoformat (clock w k))) (rows dfs ! i)
         else rows df' ! i = rows dfs ! i"
        unfolding cell_i env by simp
      show "if cell ?r ''market_ticker'' \<in> set (closed_tickers ex sm (r # rs))
         then \<exists>k. ticks w \<le> k \<and> k < ticks w + length (closed_tickers ex sm (r # rs)) \<and>
                rows df' ! i = AList.update ''market_status_change_time''
                                 (Some (isoformat (clock w k))) ?r
         else rows df' ! i = ?r"
      proof (cases "cell ?r ''market_ticker'' \<in> set (closed_tickers ex sm rs)")
        case True
        with step obtain k where k: "Suc (ticks w) \<le> k"
          "k < Suc (ticks w) + length (closed_tickers ex sm rs)"
          "rows df' ! i = AList.update ''market_status_change_time''
                                 (Some (isoformat (clock w k))) (rows dfs ! i)"
          by auto
        from k(3) have "rows df' ! i = AList.update ''market_status_change_time''
                                 (Some (isoformat (clock w k))) ?r"
          by (simp add: dfs_i)
        with k(1,2) True show ?thesis
          unfolding cts by (auto intro!: exI [of _ k])
      next
        case False
        with step have same: "rows df' ! i = rows dfs ! i" by simp
        show ?thesis
        proof (cases "cell ?r ''market_ticker'' = ?v")
          case True
          with same dfs_i show ?thesis
            unfolding cts by (auto intro!: exI [of _ "ticks w"])
        next
          case neq: False
          with same dfs_i False show ?thesis
            unfolding cts by auto
        qed
      qed
    qed
  qed
qed


lemma cell_snoc_other: "c \<noteq> k \<Longrightarrow> cell (r @ [(k, v)]) c = cell r c"
  by (simp add: cell_def map_add_def split: option.splits)

lemma stored_tickers_opened_table [simp]:
  "stored_tickers (Some (opened_table cols d)) = stored_tickers d"
  by (cases d) (simp_all add: stored_tickers_def opened_table_def Let_def comp_def cell_snoc_other
      dropna_def)

lemma stored_status_opened_table [simp]:
  "stored_status (Some (opened_table cols d)) = stored_status d"
  by (cases d) (simp_all add: stored_status_def opened_table_def Let_def comp_def cell_snoc_other)

lemma reconcile_steps:
  assumes "reconcile df w = (Inr c, w')"
  shows "\<exists>w1 w2 w3 w4 w5.
     init_DatabaseClient (map (\<lambda>c. (c, ''TEXT'')) (columns df)) w =
       (Inr (map (\<lambda>c. (c, ''TEXT'')) (columns df)), w1) \<and>
     get_existing_market_tickers (map (\<lambda>c. (c, ''TEXT'')) (columns df)) w1 =
       (Inr (stored_tickers (db w)), w2) \<and>
     get_market_status_map (map (\<lambda>c. (c, ''TEXT'')) (columns df)) w2 =
       (Inr (stored_status (db w)), w3) \<and>
     insert_pass (map (\<lambda>c. (c, ''TEXT'')) (columns df)) df (stored_tickers (db w)) w3 =
       (Inr (opened c), w4) \<and>
     closure_pass (map (\<lambda>c. (c, ''TEXT'')) (columns df)) (stored_tickers (db w))
         (stored_status (db w)) (rows df) (df, 0) w4 =
       (Inr (frame_of c, closed c), w5) \<and>
     summary_report (map (\<lambda>c. (c, ''TEXT'')) (columns df)) (closed c) (opened c) w5 =
       (Inr (total_active c), w')"
proof -
  let ?schema = "map (\<lambda>c. (c, ''TEXT'')) (columns df)"
  from assms obtain cl w1 ex w2 sm w3 n w4 df' k w5 tot where
    i: "init_DatabaseClient ?schema w = (Inr cl, w1)" and
    e: "(if file_exists w1 then get_existing_market_tickers cl else return {}) w1 = (Inr ex, w2)" and
    m: "get_market_status_map cl w2 = (Inr sm, w3)" and
    p: "insert_pass cl df ex w3 = (Inr n, w4)" and
    q: "closure_pass cl ex sm (rows df) (df, 0) w4 = (Inr (df', k), w5)" and
    r: "summary_report cl k n w5 = (Inr tot, w')" and
    c: "c = \<lparr>frame_of = df', opened = n, closed = k, total_active = tot\<rparr>"
    by (auto simp: reconcile_def Let_def bind_io_Inr return_eq split: prod.splits)
  note i' = init_DatabaseClient_Inr [OF i]
  from e i'(5) have e': "get_existing_market_tickers cl w1 = (Inr ex, w2)" by simp
  note e'' = get_existing_market_tickers_Inr [OF e']
  note m' = get_market_status_map_Inr [OF m]
  have ex: "ex = stored_tickers (db w)" using e''(1) i'(2) by simp
  have sm: "sm = stored_status (db w)" using m'(1) e''(2) i'(2) by simp
  show ?thesis
    using i e' m p q r by (auto simp: i'(1) ex sm c)
qed




lemma market_status_change_time_opened:
  "''market_status_change_time'' \<in> set (tcols (opened_table cols d))"
  by (simp add: opened_table_def Let_def)



lemma reconcile_frame:
  assumes "reconcile df w = (Inr c, w')"
  shows "columns (frame_of c) = columns df"
    and "length (rows (frame_of c)) = length (rows df)"
    and "\<And>i. i < length (rows df) \<Longrightarrow>
           cell (rows df ! i) ''market_ticker'' \<in>
             set (closed_tickers (stored_tickers (db w)) (stored_status (db w)) (rows df)) \<Longrightarrow>
           \<exists>k. ticks w \<le> k \<and> k < ticks w + closed c \<and>
             rows (frame_of c) ! i = AList.update ''market_status_change_time''
                                 (Some (isoformat (clock w k))) (rows df ! i)"
    and "\<And>i. i < length (rows df) \<Longrightarrow>
           cell (rows df ! i) ''market_ticker'' \<notin>
             set (closed_tickers (stored_tickers (db w)) (stored_status (db w)) (rows df)) \<Longrightarrow>
           rows (frame_of c) ! i = rows df ! i"
proof -
  let ?schema = "map (\<lambda>c. (c, ''TEXT'')) (columns df)"
  let ?ex = "stored_tickers (db w)"
  let ?sm = "stored_status (db w)"
  from reconcile_steps [OF assms] obtain w1 w2 w3 w4 w5 where
    i: "init_DatabaseClient ?schema w = (Inr ?schema, w1)" and
    e: "get_existing_market_tickers ?schema w1 = (Inr ?ex, w2)" and
    m: "get_market_status_map ?schema w2 = (Inr ?sm, w3)" and
    p: "insert_pass ?schema df ?ex w3 = (Inr (opened c), w4)" and
    q: "closure_pass ?schema ?ex ?sm (rows df) (df, 0) w4 = (Inr (frame_of c, closed c), w5)" and
    r: "summary_report ?schema (closed c) (opened c) w5 = (Inr (total_active c), w')"
    by blast
  have "db w3 \<noteq> None"
    using init_DatabaseClient_Inr(2) [OF i] get_existing_market_tickers_Inr(2) [OF e]
      get_market_status_map_Inr(2) [OF m] by simp
  then obtain t where t: "db w3 = Some t" by auto
  have env: "ticks w4 = ticks w" "clock w4 = clock w"
    using init_DatabaseClient_Inr(3,4) [OF i] get_existing_market_tickers_Inr(3,4) [OF e]
      get_market_status_map_Inr(3,4) [OF m] insert_pass_Inr(3,4) [OF p t]
    by simp_all
  have cnt: "closed c = length (closed_tickers ?ex ?sm (rows df))"
    using closure_pass_Inr [OF q] by (simp add: closed_tickers_def)
  from closure_pass_Inr [OF q] show "columns (frame_of c) = columns df" by simp
  note f = closure_pass_frame [OF q, unfolded env, folded cnt]
  from f show "length (rows (frame_of c)) = length (rows df)" by simp
  {
    fix i assume "i < length (rows df)"
    with f have *: "if cell (rows df ! i) ''market_ticker'' \<in> set (closed_tickers ?ex ?sm (rows df))
         then \<exists>k. ticks w \<le> k \<and> k < ticks w + closed c \<and>
                rows (frame_of c) ! i = AList.update ''market_status_change_time''
                                 (Some (isoformat (clock w k))) (rows df ! i)
         else rows (frame_of c) ! i = rows df ! i"
      by blast
    {
      assume "cell (rows df ! i) ''market_ticker'' \<in> set (closed_tickers ?ex ?sm (rows df))"
      with * show "\<exists>k. ticks w \<le> k \<and> k < ticks w + closed c \<and>
             rows (frame_of c) ! i = AList.update ''market_status_change_time''
                                 (Some (isoformat (clock w k))) (rows df ! i)"
        by simp
    }
    {
      assume "cell (rows df ! i) ''market_ticker'' \<notin> set (closed_tickers ?ex ?sm (rows df))"
      with * show "rows (frame_of c) ! i = rows df ! i" by simp
    }
  }
qed

lemma bind_err_Inr: "bind_err m f = Inr y \<longleftrightarrow> (\<exists>x. m = Inr x \<and> f x = Inr y)"
  by (cases m) (simp_all add: bind_err_def)

lemma recursive_extract_count:
  "recursive_extract events = Inr xs \<Longrightarrow> sum_list (map (\<lambda>x. length (fst x)) xs) = market_count events"
proof (induction events arbitrary: xs)
  case Nil
  then show ?case by (simp add: market_count_def)
next
  case (Cons e es)
  from Cons.prems obtain x ys where x: "extract_event e = Inr x"
    and ys: "recursive_extract es = Inr ys" and xs: "xs = x # ys"
    by (auto simp: bind_err_Inr)
  from x have "markets e = Some (fst x)"
    by (auto simp: extract_event_def bind_err_Inr pull_records_def split: option.splits)
  with Cons.IH [OF ys] xs show ?case by (simp add: market_count_def)
qed

lemma length_rows_assign: "length (rows (assign c vs df)) = min (length (rows df)) (length vs)"
  by (simp add: assign_def)

lemma length_concat_replicate:
  "(\<Sum>x\<leftarrow>xs. length (case x of (recs, m) \<Rightarrow> replicate (length recs) m)) = (\<Sum>x\<leftarrow>xs. length (fst x))"
  by (induction xs) auto

lemma json_normalize_count:
  assumes "json_normalize events = Inr df"
  shows "length (rows df) = market_count events"
proof (cases "events = []")
  case True
  with assms show ?thesis by (auto simp: json_normalize_def market_count_def)
next
  case False
  with assms obtain xs where xs: "recursive_extract events = Inr xs"
    and "length (rows df) = sum_list (map (\<lambda>x. length (fst x)) xs)"
    by (auto simp: json_normalize_def bind_err_Inr Let_def length_rows_assign
        length_concat_replicate rename_columns_def DataFrame_def length_concat comp_def)
  with recursive_extract_count [OF xs] show ?thesis by simp
qed

lemma filter_key_le_one:
  "distinct (map f xs) \<Longrightarrow> length (filter (\<lambda>x. f x = k) xs) \<le> Suc 0"
proof (induction xs)
  case Nil
  then show ?case by simp
next
  case (Cons x xs)
  show ?case
  proof (cases "f x = k")
    case True
    with Cons.prems have "filter (\<lambda>y. f y = k) xs = []"
      by (auto simp: filter_empty_conv image_iff)
    with True show ?thesis by simp
  next
    case False
    with Cons show ?thesis by simp
  qed
qed

lemma length_concat_singletons:
  "(\<And>x. x \<in> set xs \<Longrightarrow> length (f x) = Suc 0) \<Longrightarrow> length (concat (map f xs)) = length xs"
  by (induction xs) auto

lemma merge_left_count:
  assumes "merge_left left right lk rk sfx = Inr df"
    and "distinct (map (\<lambda>r. cell r rk) (rows right))"
  shows "length (rows df) = length (rows left)"
proof -
  have one: "length (case filter (\<lambda>r. cell r rk = k) (rows right) of [] \<Rightarrow> [a] | m # ms \<Rightarrow> map g (m # ms)) = Suc 0" for k a and g :: "row \<Rightarrow> row"
    using filter_key_le_one [OF assms(2), of k]
    by (cases "filter (\<lambda>r. cell r rk = k) (rows right)") auto
  from assms(1) show ?thesis
    by (auto simp: merge_left_def Let_def one length_concat_singletons split: if_splits)
qed

lemma length_rows_getitem_columns:
  "getitem_columns df cols = Inr df' \<Longrightarrow> length (rows df') = length (rows df)"
  by (auto simp: getitem_columns_def split: list.splits)

lemma length_rows_loc_columns: "length (rows (loc_columns keep df)) = length (rows df)"
  by (simp add: loc_columns_def Let_def)

lemma length_rows_drop_columns: "length (rows (drop_columns cs df)) = length (rows df)"
  by (simp add: drop_columns_def length_rows_loc_columns)

lemma cell_event_dict: "k \<noteq> ''markets'' \<Longrightarrow> cell (event_dict e) k = cell (members e) k"
  by (auto simp: event_dict_def cell_def map_add_def split: option.splits)

lemma flatten_events_count:
  assumes ok: "flatten_events events = Inr df"
    and dist: "distinct (map (\<lambda>e. cell (members e) ''event_ticker'') events)"
  shows "length (rows df) = market_count events"
proof -
  let ?right = "DataFrame (map event_dict events)"
  from ok obtain left merged picked where
    left: "json_normalize events = Inr left" and
    merged: "merge_left left ?right ''event_event_ticker'' ''event_ticker'' (''_market'', ''_event'') = Inr merged" and
    picked: "getitem_columns merged (front_columns @ filter (\<lambda>c. c \<notin> set front_columns) (columns merged)) = Inr picked" and
    df: "length (rows df) = length (rows picked)"
    by (auto simp: flatten_events_def Let_def bind_err_Inr length_rows_assign
        length_rows_drop_columns length_rows_loc_columns)
  from merged have key: "''event_ticker'' \<in> set (columns ?right)"
    by (auto simp: merge_left_def split: if_splits)
  have "map (\<lambda>r. cell r ''event_ticker'') (rows ?right) = map (\<lambda>e. cell (members e) ''event_ticker'') events"
    using key by (simp add: DataFrame_def Let_def comp_def cell_project cell_event_dict)
  with dist have "distinct (map (\<lambda>r. cell r ''event_ticker'') (rows ?right))" by simp
  from merge_left_count [OF merged this] have "length (rows merged) = length (rows left)" .
  with df length_rows_getitem_columns [OF picked] json_normalize_count [OF left]
  show ?thesis by simp
qed

text \<open>Small worlds and frames on which the theorems below are run.\<close>

section \<open>The insert pass with nothing to insert\<close>

text \<open>
  Claim C10. When no row of the working frame is both unknown to the store and active,
  \<open>opened_count\<close> is 0 and \<open>append_dataframe\<close> is not called: the insert pass hands
  back the world it was given, with the store, the log and the pending faults of the engine
  untouched, so no storage error can come out of it. The only error left is the KeyError of
  line 103 for a frame that lacks one of the two columns.
\<close>

theorem insert_pass_nothing_to_insert:
  assumes "filter (new_active_row existing) (rows df) = []"
  shows "insert_pass db_client df existing w =
     (if ''market_ticker'' \<notin> set (columns df) then Inl (KeyError ''market_ticker'')
      else if ''market_status'' \<notin> set (columns df) then Inl (KeyError ''market_status'')
      else Inr 0, w)"
  using assms
  by (simp add: insert_pass_def bind_io_def lift_def getitem_def return_def Let_def)

theorem insert_pass_nothing_to_insert_witness:
  "filter (new_active_row {''T1'', ''T2''}) (rows quiet_frame) = [] \<and>
   insert_pass [] quiet_frame {''T1'', ''T2''} failing_world = (Inr 0, failing_world)"
proof -
  have h: "filter (new_active_row {''T1'', ''T2''}) (rows quiet_frame) = []"
    by (simp add: quiet_frame_def new_active_row_def isin_def cell_def)
  from insert_pass_nothing_to_insert [OF h, of "[]" failing_world] h show ?thesis
    by (simp add: quiet_frame_def)
qed

section \<open>Deleting a ticker the store does not hold\<close>

lemma execute_Inl:
  "fst (execute stmt w) = Inl e \<longleftrightarrow>
     (case faults w of Some e' # fs \<Rightarrow> e' = e
      | _ \<Rightarrow> fst (stmt (w\<lparr>file_exists := True, faults := tl (faults w)\<rparr>)) = Inl e)"
  by (auto simp: execute_def split: list.splits option.splits)

lemma except_fst:
  "fst (except_SQLAlchemyError body msg w) = fst (body w)"
  by (auto simp: except_SQLAlchemyError_def split: prod.splits sum.splits error.splits)

lemma bind_io_log_fst:
  "fst (bind_io m (\<lambda>_. log x) w) = Inl e \<longleftrightarrow> fst (m w) = Inl e"
  by (auto simp: bind_io_def log_def split: prod.splits sum.splits)

text \<open>
  Claim C7. When the table holds no row with the given ticker and the engine carries the
  statement out, \<open>delete_market\<close> returns normally and the store is what it was. And
  \<open>delete_market\<close> raises an error exactly when the engine call with the DELETE
  statement raises it.
\<close>

theorem delete_market_absent_ticker:
  "(db w = Some t \<and> ''market_ticker'' \<in> set (tcols t) \<and>
    (\<forall>r\<in>set (trows t). cell r ''market_ticker'' \<noteq> ticker) \<and>
    (faults w = [] \<or> hd (faults w) = None) \<longrightarrow>
      fst (delete_market self ticker w) = Inr () \<and>
      db (snd (delete_market self ticker w)) = db w) \<and>
   (fst (delete_market self ticker w) = Inl e \<longleftrightarrow> fst (execute (sql_delete ticker) w) = Inl e)"
proof (intro conjI impI)
  assume a: "db w = Some t \<and> ''market_ticker'' \<in> set (tcols t) \<and>
    (\<forall>r\<in>set (trows t). cell r ''market_ticker'' \<noteq> ticker) \<and>
    (faults w = [] \<or> hd (faults w) = None)"
  then have keep: "filter (\<lambda>r. \<not> eq_val (cell r ''market_ticker'') ticker) (trows t) = trows t"
    by (auto simp: eq_val_def filter_id_conv)
  from a keep show "fst (delete_market self ticker w) = Inr ()"
    by (cases "faults w")
      (auto simp: delete_market_def except_SQLAlchemyError_def bind_io_def execute_def
        sql_delete_def log_def split: list.splits option.splits)
  from a keep show "db (snd (delete_market self ticker w)) = db w"
    by (cases "faults w")
      (auto simp: delete_market_def except_SQLAlchemyError_def bind_io_def execute_def
        sql_delete_def log_def split: list.splits option.splits)
next
  show "fst (delete_market self ticker w) = Inl e \<longleftrightarrow> fst (execute (sql_delete ticker) w) = Inl e"
    by (simp add: delete_market_def except_fst bind_io_log_fst)
qed

theorem delete_market_absent_ticker_witness:
  "fst (delete_market [] (Some ''T9'') ex_world) = Inr () \<and>
   db (snd (delete_market [] (Some ''T9'') ex_world)) = Some ex_table \<and>
   fst (delete_market [] (Some ''T9'') failing_world) = Inl (SQLAlchemyError ''database is locked'')"
proof -
  have a: "db ex_world = Some ex_table \<and> ''market_ticker'' \<in> set (tcols ex_table) \<and>
    (\<forall>r\<in>set (trows ex_table). cell r ''market_ticker'' \<noteq> Some ''T9'') \<and>
    (faults ex_world = [] \<or> hd (faults ex_world) = None)"
    by (simp add: ex_world_def ex_table_def cell_def)
  have b: "fst (execute (sql_delete (Some ''T9'')) failing_world) = Inl (SQLAlchemyError ''database is locked'')"
    by (simp add: execute_def failing_world_def)
  from delete_market_absent_ticker [of ex_world ex_table "Some ''T9''" "[]"] a
  have "fst (delete_market [] (Some ''T9'') ex_world) = Inr () \<and>
      db (snd (delete_market [] (Some ''T9'') ex_world)) = db ex_world"
    by blast
  moreover from delete_market_absent_ticker [of failing_world t "Some ''T9''" "[]" "SQLAlchemyError ''database is locked''"] b
  have "fst (delete_market [] (Some ''T9'') failing_world) = Inl (SQLAlchemyError ''database is locked'')"
    by blast
  ultimately show ?thesis by (simp add: ex_world_def)
qed

section \<open>Failures of the storage engine\<close>

text \<open>
  Claim C6. On a new file, with the engine refusing the CREATE TABLE that \<open>to_sql\<close>
  issues, \<open>_ensure_table\<close> lets the error through and hands nothing to the logger. The
  same kind of failure inside \<open>append_dataframe\<close> is logged before it is raised again.
\<close>

theorem ensure_table_failure_not_logged:
  "fst (ensure_table [(''market_ticker'', ''TEXT'')] fresh_world) =
     Inl (SQLAlchemyError ''unable to open database file'') \<and>
   logs (snd (ensure_table [(''market_ticker'', ''TEXT'')] fresh_world)) = logs fresh_world \<and>
   fst (append_dataframe [] ex_frame failing_world) = Inl (SQLAlchemyError ''database is locked'') \<and>
   logs (snd (append_dataframe [] ex_frame failing_world)) =
     logs failing_world @ [Exception ''DB insert failed.'']"
  by (simp add: ensure_table_def append_dataframe_def except_SQLAlchemyError_def bind_io_def
      execute_def has_table_def fresh_world_def failing_world_def ex_world_def)

section \<open>The flattener\<close>

text \<open>
  Claim C3, as the code has it. For events whose event tickers are pairwise distinct, the
  table that lines 69 to 81 build (the markets expanded, then merged with the events) and
  the working frame that line 90 completes have one row for each market under the events;
  an event without markets adds no row. The flattening is a function of the list of events
  alone: in every world the step hands on the same result and leaves the world as it was.
  Without the distinctness the left merge of line 77 repeats a market row once for every
  event that carries its event ticker.
\<close>

theorem flatten_events_row_count:
  assumes "distinct (map (\<lambda>e. cell (members e) ''event_ticker'') events)"
  shows "(json_normalize events = Inr markets_df \<and>
          merge_left markets_df (DataFrame (map event_dict events))
            ''event_event_ticker'' ''event_ticker'' (''_market'', ''_event'') = Inr merged \<longrightarrow>
            length (rows merged) = market_count events) \<and>
         (flatten_events events = Inr df \<longrightarrow> length (rows df) = market_count events) \<and>
         lift (flatten_events events) w = (flatten_events events, w)"
proof (intro conjI impI)
  let ?right = "DataFrame (map event_dict events)"
  assume a: "json_normalize events = Inr markets_df \<and>
          merge_left markets_df ?right
            ''event_event_ticker'' ''event_ticker'' (''_market'', ''_event'') = Inr merged"
  then have key: "''event_ticker'' \<in> set (columns ?right)"
    by (auto simp: merge_left_def split: if_splits)
  have "map (\<lambda>r. cell r ''event_ticker'') (rows ?right) =
        map (\<lambda>e. cell (members e) ''event_ticker'') events"
    using key by (simp add: DataFrame_def Let_def comp_def cell_project cell_event_dict)
  with assms have "distinct (map (\<lambda>r. cell r ''event_ticker'') (rows ?right))" by simp
  with a have "length (rows merged) = length (rows markets_df)"
    by (blast intro: merge_left_count)
  with a json_normalize_count show "length (rows merged) = market_count events"
    by simp
next
  assume "flatten_events events = Inr df"
  from flatten_events_count [OF this assms]
  show "length (rows df) = market_count events" .
next
  show "lift (flatten_events events) w = (flatten_events events, w)"
    by (simp add: lift_def)
qed

theorem flatten_events_row_count_witness:
  "distinct (map (\<lambda>e. cell (members e) ''event_ticker'') ex_events) \<and>
   \<not> isl (flatten_events ex_events) \<and>
   length (rows (projr (flatten_events ex_events))) = 2 \<and> market_count ex_events = 2 \<and>
   distinct (map (\<lambda>e. cell (members e) ''event_ticker'') no_market_events) \<and>
   \<not> isl (json_normalize no_market_events) \<and>
   \<not> isl (merge_left (projr (json_normalize no_market_events))
            (DataFrame (map event_dict no_market_events))
            ''event_event_ticker'' ''event_ticker'' (''_market'', ''_event'')) \<and>
   length (rows (projr (merge_left (projr (json_normalize no_market_events))
            (DataFrame (map event_dict no_market_events))
            ''event_event_ticker'' ''event_ticker'' (''_market'', ''_event'')))) = 0 \<and>
   market_count no_market_events = 0"
proof -
  let ?m = "merge_left (projr (json_normalize no_market_events))
            (DataFrame (map event_dict no_market_events))
            ''event_event_ticker'' ''event_ticker'' (''_market'', ''_event'')"
  have ok: "\<not> isl (flatten_events ex_events)" by code_simp
  then have df: "flatten_events ex_events = Inr (projr (flatten_events ex_events))"
    by (cases "flatten_events ex_events") auto
  have d: "distinct (map (\<lambda>e. cell (members e) ''event_ticker'') ex_events)"
    by (simp add: ex_events_def cell_def)
  have m: "market_count ex_events = 2"
    by (simp add: ex_events_def market_count_def)
  have ok1: "\<not> isl (json_normalize no_market_events)" by code_simp
  then have n: "json_normalize no_market_events = Inr (projr (json_normalize no_market_events))"
    by (cases "json_normalize no_market_events") auto
  have ok2: "\<not> isl ?m" by code_simp
  then have mg: "?m = Inr (projr ?m)"
    by (cases ?m) auto
  have d0: "distinct (map (\<lambda>e. cell (members e) ''event_ticker'') no_market_events)"
    by (simp add: no_market_events_def)
  have m0: "market_count no_market_events = 0"
    by (simp add: no_market_events_def market_count_def)
  from flatten_events_row_count [OF d, of markets_df merged "projr (flatten_events ex_events)" w] df
  have "length (rows (projr (flatten_events ex_events))) = market_count ex_events"
    by blast
  moreover
  from flatten_events_row_count [OF d0, of "projr (json_normalize no_market_events)" "projr ?m"] n mg
  have "length (rows (projr ?m)) = market_count no_market_events"
    by blast
  ultimately show ?thesis
    using ok d m ok1 ok2 d0 m0 by simp
qed

text \<open>
  Two events with the event ticker E1, the first with one market and the second with none:
  the frame has two rows for the one market.
\<close>

theorem flatten_events_row_count_counterexample:
  "\<not> isl (flatten_events dup_events) \<and>
   length (rows (projr (flatten_events dup_events))) = 2 \<and> market_count dup_events = 1"
  by code_simp

lemma columns_loc_columns: "columns (loc_columns keep df) = filter keep (columns df)"
  by (simp add: loc_columns_def Let_def)

lemma keys_project: "map fst (project cols r) = cols"
  by (simp add: project_def comp_def)

lemma rows_loc_columns:
  "r \<in> set (rows (loc_columns keep df)) \<Longrightarrow> map fst r = filter keep (columns df)"
  by (auto simp: loc_columns_def Let_def keys_project)

lemma columns_assign: "set (columns (assign c vs df)) = insert c (set (columns df))"
  by (auto simp: assign_def)

lemma rows_assign:
  "r \<in> set (rows (assign c vs df)) \<Longrightarrow>
     \<exists>r0 v. r0 \<in> set (rows df) \<and> v \<in> set vs \<and> r = AList.update c v r0"
  by (auto simp: assign_def dest: set_zip_leftD set_zip_rightD)

lemma keys_update: "set (map fst (AList.update k v r)) = insert k (set (map fst r))"
  using dom_update [of k v r] by simp

lemma no_custom_strike_assign:
  assumes "no_custom_strike df" and "\<not> startswith c ''market_custom_strike''"
  shows "no_custom_strike (assign c vs df)"
  unfolding no_custom_strike_def
proof (intro conjI ballI)
  fix x assume "x \<in> set (columns (assign c vs df))"
  with assms show "\<not> startswith x ''market_custom_strike''"
    by (auto simp: columns_assign no_custom_strike_def)
next
  fix r k assume "r \<in> set (rows (assign c vs df))" and k: "k \<in> set (map fst r)"
  then obtain r0 v where r0: "r0 \<in> set (rows df)" and r: "r = AList.update c v r0"
    by (blast dest: rows_assign)
  from k have "k = c \<or> k \<in> set (map fst r0)"
    unfolding r keys_update by blast
  with assms r0 show "\<not> startswith k ''market_custom_strike''"
    unfolding no_custom_strike_def by blast
qed

lemma no_custom_strike_loc_columns:
  assumes "\<forall>c\<in>set (columns df). keep c \<longrightarrow> \<not> startswith c ''market_custom_strike''"
  shows "no_custom_strike (loc_columns keep df)"
  unfolding no_custom_strike_def
proof (intro conjI ballI)
  fix x assume "x \<in> set (columns (loc_columns keep df))"
  with assms show "\<not> startswith x ''market_custom_strike''"
    by (simp add: columns_loc_columns)
next
  fix r k assume "r \<in> set (rows (loc_columns keep df))" and k: "k \<in> set (map fst r)"
  from rows_loc_columns [OF this(1)] k have "k \<in> set (filter keep (columns df))" by simp
  with assms show "\<not> startswith k ''market_custom_strike''" by simp
qed

lemma flatten_events_shape:
  assumes "flatten_events events = Inr df"
  shows "no_custom_strike df" and "\<forall>r\<in>set (rows df). cell r ''market_status_change_time'' = None"
proof -
  from assms obtain picked where
    df: "df = assign ''market_status_change_time''
           (replicate (length (rows (drop_columns [''markets'']
              (loc_columns (\<lambda>c. \<not> startswith c ''market_custom_strike'') picked)))) None)
           (drop_columns [''markets'']
              (loc_columns (\<lambda>c. \<not> startswith c ''market_custom_strike'') picked))"
    by (auto simp: flatten_events_def Let_def bind_err_Inr)
  let ?clean = "loc_columns (\<lambda>c. \<not> startswith c ''market_custom_strike'') picked"
  have sct: "\<not> startswith ''market_status_change_time'' ''market_custom_strike''"
    by (simp add: startswith_def)
  have "no_custom_strike ?clean"
    by (rule no_custom_strike_loc_columns) simp
  then have "no_custom_strike (drop_columns [''markets''] ?clean)"
    unfolding drop_columns_def
    by (intro no_custom_strike_loc_columns) (simp add: no_custom_strike_def)
  from no_custom_strike_assign [OF this sct]
  show "no_custom_strike df" unfolding df .
  show "\<forall>r\<in>set (rows df). cell r ''market_status_change_time'' = None"
    unfolding df by (auto dest!: rows_assign simp: cell_update_same)
qed





lemma get_events_dataframe_Inr:
  "get_events_dataframe events w = (Inr out, w') \<longleftrightarrow>
     (\<exists>df c. flatten_events events = Inr df \<and> reconcile df w = (Inr c, w') \<and> out = frame_of c)"
  by (auto simp: get_events_dataframe_def bind_io_Inr lift_def return_eq)

lemma reconcile_no_custom_strike:
  assumes "reconcile df w = (Inr c, w')" and "no_custom_strike df"
  shows "no_custom_strike (frame_of c)"
  unfolding no_custom_strike_def
proof (intro conjI ballI)
  fix x assume "x \<in> set (columns (frame_of c))"
  with assms show "\<not> startswith x ''market_custom_strike''"
    by (simp add: reconcile_frame(1) no_custom_strike_def)
next
  fix r k assume "r \<in> set (rows (frame_of c))" and k: "k \<in> set (map fst r)"
  then obtain i where i: "i < length (rows df)" and r: "r = rows (frame_of c) ! i"
    by (auto simp: in_set_conv_nth reconcile_frame(2) [OF assms(1)])
  have sct: "\<not> startswith ''market_status_change_time'' ''market_custom_strike''"
    by (simp add: startswith_def)
  have "r = rows df ! i \<or> (\<exists>v. r = AList.update ''market_status_change_time'' v (rows df ! i))"
    using reconcile_frame(3,4) [OF assms(1) i] r by blast
  with k have "k = ''market_status_change_time'' \<or> k \<in> set (map fst (rows df ! i))"
    unfolding keys_update [symmetric] by (auto simp: keys_update simp del: set_map)
  moreover have "rows df ! i \<in> set (rows df)" using i by simp
  ultimately show "\<not> startswith k ''market_custom_strike''"
    using assms(2) sct unfolding no_custom_strike_def by blast
qed

lemma bind_io_runs:
  "m w = (Inr x, w1) \<Longrightarrow> f x w1 = (Inr y, w2) \<Longrightarrow> bind_io m f w = (Inr y, w2)"
  by (simp add: bind_io_def)




















section \<open>The insert pass\<close>



section \<open>The closure pass\<close>









section \<open>The two passes together\<close>



section \<open>What the store reports as existing\<close>



end
